theory Spec2Isabelle
  imports Main
begin

section \<open>JavaScript string operations used by the command interpreters\<close>

text \<open>
  Transcripts are modelled as \<open>string\<close>: a list of 8-bit characters, each read as the
  UTF-16 code unit of the same number (the Latin-1 range). All keywords, number words and
  spoken messages of the sources are ASCII.
\<close>

definition code_unit :: "char \<Rightarrow> nat" where
  "code_unit c = of_char c"

text \<open>\<open>String.prototype.toLowerCase\<close> on the Latin-1 range: A-Z and the accented capitals
  U+00C0..U+00DE (without the multiplication sign U+00D7) move up by 32.\<close>

definition toLowerChar :: "char \<Rightarrow> char" where
  "toLowerChar c =
     (let n = code_unit c in
      if (65 \<le> n \<and> n \<le> 90) \<or> (192 \<le> n \<and> n \<le> 222 \<and> n \<noteq> 215)
      then char_of (n + 32) else c)"

definition toLowerCase :: "string \<Rightarrow> string" where
  "toLowerCase s = map toLowerChar s"

text \<open>White space and line terminators of ECMAScript below U+0100: TAB, LF, VT, FF, CR,
  SPACE and NBSP. This is what \<open>trim\<close> strips and what \<open>\s\<close> matches.\<close>

definition isWhitespace :: "char \<Rightarrow> bool" where
  "isWhitespace c =
     (let n = code_unit c in (9 \<le> n \<and> n \<le> 13) \<or> n = 32 \<or> n = 160)"

definition trim :: "string \<Rightarrow> string" where
  "trim s = rev (dropWhile isWhitespace (rev (dropWhile isWhitespace s)))"

text \<open>\<open>\d\<close> is \<open>[0-9]\<close>; \<open>[a-zA-Z]\<close>; \<open>\w\<close> is \<open>[A-Za-z0-9_]\<close>.\<close>

definition isDigit :: "char \<Rightarrow> bool" where
  "isDigit c = (let n = code_unit c in 48 \<le> n \<and> n \<le> 57)"

definition isAsciiLetter :: "char \<Rightarrow> bool" where
  "isAsciiLetter c =
     (let n = code_unit c in (65 \<le> n \<and> n \<le> 90) \<or> (97 \<le> n \<and> n \<le> 122))"

definition isWordChar :: "char \<Rightarrow> bool" where
  "isWordChar c = (isAsciiLetter c \<or> isDigit c \<or> code_unit c = 95)"

text \<open>\<open>s.includes(k)\<close>: \<open>k\<close> occurs in \<open>s\<close> as a contiguous substring.\<close>

primrec startsWith :: "string \<Rightarrow> string \<Rightarrow> bool" where
  "startsWith s [] = True"
| "startsWith s (k # ks) = (case s of [] \<Rightarrow> False | c # cs \<Rightarrow> c = k \<and> startsWith cs ks)"

primrec includes_str :: "string \<Rightarrow> string \<Rightarrow> bool" where
  "includes_str [] k = (k = [])"
| "includes_str (c # cs) k = (startsWith (c # cs) k \<or> includes_str cs k)"

text \<open>\<open>includes_any s ks\<close> is the disjunction \<open>s.includes(k1) || s.includes(k2) || ...\<close>
  of one \<open>if\<close> condition, in the order written.\<close>

primrec includes_any :: "string \<Rightarrow> string list \<Rightarrow> bool" where
  "includes_any s [] = False"
| "includes_any s (k # ks) = (includes_str s k \<or> includes_any s ks)"

section \<open>Effects requested by the view controllers\<close>

text \<open>
  A handler returns the new component state together with the calls it makes on its
  collaborators, listed in the order of the call sites. Each call carries the number of
  milliseconds of \<open>setTimeout\<close>/\<open>await\<close> delay that precede it, counted from the start
  of the handler; calls with delay 0 run before the handler returns.
\<close>

datatype action =
    Speak string
  | PlayTone string
  | SetItem string string
  | Navigate string
  | ClearTranscript

type_synonym timed_action = "nat \<times> action"

definition now :: "action \<Rightarrow> timed_action" where
  "now a = (0, a)"

primrec is_speak :: "action \<Rightarrow> bool" where
  "is_speak (Speak t) = True"
| "is_speak (PlayTone t) = False"
| "is_speak (SetItem k v) = False"
| "is_speak (Navigate p) = False"
| "is_speak ClearTranscript = False"

definition spoken :: "timed_action list \<Rightarrow> timed_action list" where
  "spoken es = filter (\<lambda>e. is_speak (snd e)) es"

section \<open>Dashboard: voice command effect (Dashboard.tsx)\<close>

datatype DashboardMode = Home | Teach | Exam | Level | Schemes | Jobs | History

record dashboard =
  currentMode :: DashboardMode
  isMuted :: bool

text \<open>The table \<open>instructions\<close> of \<open>speakModeInstructions\<close>.\<close>

primrec instructions :: "DashboardMode \<Rightarrow> string" where
  "instructions Home = ''You are on your dashboard. You can say: Teach me, Prepare me for an exam, Find government schemes, Find jobs, Check my level, or Continue where we stopped.''"
| "instructions Teach = ''Teaching mode. Say any subject like mathematics, science, or history. I will explain it step by step.''"
| "instructions Exam = ''Exam preparation mode. Tell me which exam you are preparing for. I know about UPSC, SSC, bank exams, and more.''"
| "instructions Level = ''Level check mode. I will ask you questions to understand your knowledge. Say start when ready.''"
| "instructions Schemes = ''Government schemes for blind people. I can help with scholarships, pensions, skill development, and assistive devices.''"
| "instructions Jobs = ''Job search mode. I can find government jobs, private sector jobs, and work from home opportunities for visually impaired.''"
| "instructions History = ''Your learning history. I remember your preferences and progress. Would you like to continue your last session?''"

definition speakModeInstructions :: "DashboardMode \<Rightarrow> timed_action list" where
  "speakModeInstructions m = [now (Speak (instructions m))]"

definition teach_text :: string where
  "teach_text = ''Teaching mode activated. What subject would you like to learn? You can say mathematics, science, history, or any subject.''"

definition exam_text :: string where
  "exam_text = ''Exam preparation mode. Which exam are you preparing for? Say UPSC, SSC, or tell me the exam name.''"

definition level_text :: string where
  "level_text = ''Level assessment mode. I will ask you some questions to understand your knowledge level. Say start when ready.''"

definition schemes_text :: string where
  "schemes_text = ''Government schemes mode. I can help you find scholarships, pensions, and disability support programs. What would you like to explore?''"

definition jobs_text :: string where
  "jobs_text = ''Job search mode. I can find accessible jobs in government, private sector, or work from home opportunities. What type of job interests you?''"

definition history_text :: string where
  "history_text = ''Welcome back! Last time we were learning about mathematics. Would you like to continue, or start something new?''"

definition home_text :: string where
  "home_text = ''You are on the main dashboard. Choose from: Teach me, Exam preparation, Check my level, Government schemes, Find jobs, or Continue learning.''"

definition logout_text :: string where
  "logout_text = ''Logging out. Goodbye!''"

definition help_text :: string where
  "help_text = ''You can say: Teach me to learn subjects, Prepare for exam, Check my level, Find government schemes, Find jobs, or Continue learning. Say Home to return to main menu.''"

text \<open>
  The body of the effect that runs on a new \<open>lastResult\<close> (Dashboard.tsx, lines 155-195):
  the \<open>if\<close>/\<open>else if\<close> chain in the order of the source, then \<open>clearTranscript()\<close>.
\<close>

definition dashboard_branch :: "dashboard \<Rightarrow> string \<Rightarrow> dashboard \<times> timed_action list" where
  "dashboard_branch s command =
     (if includes_any command [''teach me'', ''teach''] then
        (s\<lparr>currentMode := Teach\<rparr>, [now (Speak teach_text)])
      else if includes_any command [''exam'', ''prepare''] then
        (s\<lparr>currentMode := Exam\<rparr>, [now (Speak exam_text)])
      else if includes_any command [''level'', ''check''] then
        (s\<lparr>currentMode := Level\<rparr>, [now (Speak level_text)])
      else if includes_any command [''scheme'', ''government''] then
        (s\<lparr>currentMode := Schemes\<rparr>, [now (Speak schemes_text)])
      else if includes_any command [''job'', ''work'', ''employment''] then
        (s\<lparr>currentMode := Jobs\<rparr>, [now (Speak jobs_text)])
      else if includes_any command [''continue'', ''resume'', ''history''] then
        (s\<lparr>currentMode := History\<rparr>, [now (Speak history_text)])
      else if includes_any command [''home'', ''dashboard'', ''main menu''] then
        (s\<lparr>currentMode := Home\<rparr>, [now (Speak home_text)])
      else if includes_any command [''repeat'', ''say again''] then
        (s, speakModeInstructions (currentMode s))
      else if includes_any command [''logout'', ''log out'', ''exit''] then
        (s, [now (Speak logout_text), (1500, Navigate ''/'')])
      else if includes_any command [''help''] then
        (s, [now (Speak help_text)])
      else (s, []))"

definition dashboard_command :: "dashboard \<Rightarrow> string \<Rightarrow> dashboard \<times> timed_action list" where
  "dashboard_command s lastResult =
     (if lastResult = [] then (s, [])
      else
        let command = trim (toLowerCase lastResult);
            tone = (if \<not> isMuted s then [now (PlayTone ''notification'')] else []);
            r = dashboard_branch s command
        in (fst r, tone @ snd r @ [now ClearTranscript]))"

section \<open>Login screen: state and handlers (Login.tsx)\<close>

datatype AuthMode = Welcome | Login | Register | Help

record login_page =
  mode :: AuthMode
  pin :: string
  username :: string
  error :: string
  isProcessing :: bool

text \<open>The table \<open>messages\<close> of \<open>handleModeChange\<close>.\<close>

primrec messages :: "AuthMode \<Rightarrow> string" where
  "messages Welcome = ''Welcome screen. Say Login, Register, or Help.''"
| "messages Login = ''Login mode. Say your username first, then say your pin numbers.''"
| "messages Register = ''Register mode. Say your username, then your pin numbers.''"
| "messages Help = ''Help mode. Available commands: Login, Register, Go back. Say your username, then numbers for PIN.''"

definition handleModeChange :: "AuthMode \<Rightarrow> login_page \<Rightarrow> login_page \<times> timed_action list" where
  "handleModeChange newMode s =
     (let s1 = s\<lparr>mode := newMode, error := []\<rparr>;
          s2 = (if newMode = Welcome then s1\<lparr>pin := [], username := []\<rparr> else s1)
      in (s2, [now (PlayTone ''click''), now (Speak (messages newMode))]))"

definition handleClearForm :: "login_page \<Rightarrow> login_page \<times> timed_action list" where
  "handleClearForm s =
     (s\<lparr>pin := [], username := [], error := []\<rparr>,
      [now (Speak ''Form cleared. Say your username.''), now (PlayTone ''notification'')])"

text \<open>
  \<open>handleSubmit\<close> is \<open>async\<close>: after \<open>speak('Processing your request.')\<close> it waits 1500 ms,
  then plays the tone, speaks, writes \<open>localStorage\<close>, and arms a 2500 ms timer for the
  navigation (4000 ms after the call). The parameter \<open>hasWindow\<close> is the value of
  \<open>typeof window !== 'undefined'\<close>, which guards the writes and the navigation; it is
  \<open>True\<close> in a browser, the only place where a click or a voice result reaches the handler.
\<close>

definition handleSubmit :: "bool \<Rightarrow> login_page \<Rightarrow> login_page \<times> timed_action list" where
  "handleSubmit hasWindow s =
     (if username s = [] \<or> length (pin s) < 4 then
        (s\<lparr>error := ''Please provide username and at least 4-digit pin''\<rparr>,
         [now (Speak ''Error. Provide username and at least 4 digit pin.''),
          now (PlayTone ''error'')])
      else
        (s\<lparr>isProcessing := True\<rparr>,
         [now (Speak ''Processing your request.''),
          (1500, PlayTone ''success''),
          (1500, Speak ''Login successful! Welcome to your dashboard.'')]
         @ (if hasWindow
            then [(1500, SetItem ''isLoggedIn'' ''true''), (1500, SetItem ''username'' (username s))]
            else [])
         @ (if hasWindow then [(1500 + 2500, Navigate ''/dashboard'')] else [])))"

text \<open>What a list of requested actions does to the key-value store, and where it navigates.\<close>

primrec store_action :: "action \<Rightarrow> (string \<rightharpoonup> string) \<Rightarrow> (string \<rightharpoonup> string)" where
  "store_action (Speak t) m = m"
| "store_action (PlayTone t) m = m"
| "store_action (SetItem k v) m = m(k \<mapsto> v)"
| "store_action (Navigate p) m = m"
| "store_action ClearTranscript m = m"

primrec storage_after :: "timed_action list \<Rightarrow> (string \<rightharpoonup> string) \<Rightarrow> (string \<rightharpoonup> string)" where
  "storage_after [] m = m"
| "storage_after (e # es) m = storage_after es (store_action (snd e) m)"

primrec is_write :: "action \<Rightarrow> bool" where
  "is_write (Speak t) = False"
| "is_write (PlayTone t) = False"
| "is_write (SetItem k v) = True"
| "is_write (Navigate p) = False"
| "is_write ClearTranscript = False"

primrec is_navigate :: "action \<Rightarrow> bool" where
  "is_navigate (Speak t) = False"
| "is_navigate (PlayTone t) = False"
| "is_navigate (SetItem k v) = False"
| "is_navigate (Navigate p) = True"
| "is_navigate ClearTranscript = False"

definition writes :: "timed_action list \<Rightarrow> timed_action list" where
  "writes es = filter (\<lambda>e. is_write (snd e)) es"

definition navigations :: "timed_action list \<Rightarrow> timed_action list" where
  "navigations es = filter (\<lambda>e. is_navigate (snd e)) es"

subsection \<open>Regular expressions of the credential capture\<close>

text \<open>Under the \<open>i\<close> flag (without \<open>u\<close>) a lower-case ASCII pattern letter matches exactly
  itself and its ASCII capital; no character above U+007F matches an ASCII letter.\<close>

definition toLowerAscii :: "char \<Rightarrow> char" where
  "toLowerAscii c =
     (let n = code_unit c in if 65 \<le> n \<and> n \<le> 90 then char_of (n + 32) else c)"

text \<open>\<open>/zero|one|two|three|four|five|six|seven|eight|nine/i.test(command)\<close>: a number word
  anywhere in the command, with no word boundary required.\<close>

definition digitWords :: "string list" where
  "digitWords = [''zero'', ''one'', ''two'', ''three'', ''four'',
                 ''five'', ''six'', ''seven'', ''eight'', ''nine'']"

definition hasNumbers :: "string \<Rightarrow> bool" where
  "hasNumbers command =
     (list_ex isDigit command \<or> includes_any (map toLowerAscii command) digitWords)"

text \<open>\<open>command.replace(/[^a-zA-Z0-9\s]/g, '').trim()\<close>.\<close>

definition cleanUsername :: "string \<Rightarrow> string" where
  "cleanUsername command =
     trim (filter (\<lambda>c. isAsciiLetter c \<or> isDigit c \<or> isWhitespace c) command)"

text \<open>
  \<open>s.replace(new RegExp(`\\b${word}\\b`, 'gi'), digit)\<close> for a word made of letters.
  \<open>matchWordAt w s\<close>: the input \<open>s\<close> continues with \<open>w\<close> (ignoring case) and a word boundary
  follows, that is the input ends there or goes on with a non-word character.
  \<open>replaceWordFrom\<close> scans left to right; \<open>prevWord\<close> tells whether the character before
  the current position is a word character (the leading \<open>\b\<close> needs it not to be), and
  \<open>skip\<close> counts the characters of a match that are still to be passed over.
\<close>

primrec matchWordAt :: "string \<Rightarrow> string \<Rightarrow> bool" where
  "matchWordAt [] s = (case s of [] \<Rightarrow> True | c # cs \<Rightarrow> \<not> isWordChar c)"
| "matchWordAt (k # ks) s =
     (case s of [] \<Rightarrow> False | c # cs \<Rightarrow> toLowerAscii c = k \<and> matchWordAt ks cs)"

primrec replaceWordFrom :: "string \<Rightarrow> string \<Rightarrow> bool \<Rightarrow> nat \<Rightarrow> string \<Rightarrow> string" where
  "replaceWordFrom w d prevWord skip [] = []"
| "replaceWordFrom w d prevWord skip (c # cs) =
     (if 0 < skip then replaceWordFrom w d (isWordChar c) (skip - 1) cs
      else if \<not> prevWord \<and> matchWordAt w (c # cs)
      then d @ replaceWordFrom w d (isWordChar c) (length w - 1) cs
      else c # replaceWordFrom w d (isWordChar c) 0 cs)"

definition replaceWord :: "string \<Rightarrow> string \<Rightarrow> string \<Rightarrow> string" where
  "replaceWord w d s = replaceWordFrom w d False 0 s"

text \<open>The object \<open>numberWords\<close>, in the order of \<open>Object.entries\<close> (insertion order).\<close>

definition numberWords :: "(string \<times> string) list" where
  "numberWords =
     [(''zero'', ''0''), (''one'', ''1''), (''two'', ''2''), (''three'', ''3''), (''four'', ''4''),
      (''five'', ''5''), (''six'', ''6''), (''seven'', ''7''), (''eight'', ''8''), (''nine'', ''9''),
      (''oh'', ''0''), (''to'', ''2''), (''too'', ''2''), (''for'', ''4''), (''fore'', ''4''),
      (''ate'', ''8'')]"

definition processedCommand :: "string \<Rightarrow> string" where
  "processedCommand command = foldl (\<lambda>acc wd. replaceWord (fst wd) (snd wd) acc) command numberWords"

text \<open>\<open>processedCommand.replace(/\D/g, '')\<close>.\<close>

definition numbers :: "string \<Rightarrow> string" where
  "numbers command = filter isDigit (processedCommand command)"

text \<open>\<open>numbers.split('').join(' ')\<close> and the decimal form of a length in a template string.\<close>

fun spokenNumbers :: "string \<Rightarrow> string" where
  "spokenNumbers [] = []"
| "spokenNumbers [c] = [c]"
| "spokenNumbers (c # d # cs) = c # CHR '' '' # spokenNumbers (d # cs)"

fun decimal :: "nat \<Rightarrow> string" where
  "decimal n = (if n < 10 then [char_of (48 + n)] else decimal (n div 10) @ [char_of (48 + n mod 10)])"

declare decimal.simps [simp del]

subsection \<open>The voice command effect (Login.tsx, lines 502-596)\<close>

definition pin_detection :: "login_page \<Rightarrow> string \<Rightarrow> login_page \<times> timed_action list" where
  "pin_detection s command =
     (if 0 < length (numbers command) then
        (let newPin = pin s @ numbers command;
             finalPin = take 6 newPin
         in (s\<lparr>pin := finalPin\<rparr>,
             [now (Speak (''Added '' @ spokenNumbers (numbers command) @ ''. PIN now has ''
                          @ decimal (length finalPin) @ '' digits.'')),
              now ClearTranscript]))
      else
        (s, (if username s \<noteq> []
             then [now (Speak (''Username is '' @ username s
                               @ ''. Say numbers for PIN, or say clear to start over.''))]
             else [])
            @ [now ClearTranscript]))"

definition andClear :: "login_page \<times> timed_action list \<Rightarrow> login_page \<times> timed_action list" where
  "andClear r = (fst r, snd r @ [now ClearTranscript])"

text \<open>Username detection, falling through to PIN detection (lines 550-593).\<close>

definition credential_capture :: "login_page \<Rightarrow> string \<Rightarrow> login_page \<times> timed_action list" where
  "credential_capture s command =
     (if username s = [] then
        (if \<not> hasNumbers command \<and> 2 \<le> length command then
           (if 2 \<le> length (cleanUsername command) then
              (s\<lparr>username := cleanUsername command\<rparr>,
               [now (Speak (''Username: '' @ cleanUsername command
                            @ ''. Now say PIN numbers, like one two three four.'')),
                now ClearTranscript])
            else pin_detection s command)
         else pin_detection s command)
      else pin_detection s command)"

definition form_commands :: "bool \<Rightarrow> login_page \<Rightarrow> string \<Rightarrow> login_page \<times> timed_action list" where
  "form_commands hasWindow s command =
     (if includes_any command [''clear'', ''clear form'', ''start over'', ''reset''] then
        andClear (handleClearForm s)
      else if includes_any command [''submit'', ''confirm'', ''done'', ''finish''] then
        andClear (handleSubmit hasWindow s)
      else credential_capture s command)"

definition login_branch :: "bool \<Rightarrow> login_page \<Rightarrow> string \<Rightarrow> login_page \<times> timed_action list" where
  "login_branch hasWindow s command =
     (if includes_any command [''login'', ''log in'', ''sign in''] then
        andClear (handleModeChange Login s)
      else if includes_any command [''register'', ''sign up'', ''signup'', ''create account''] then
        andClear (handleModeChange Register s)
      else if includes_any command [''help''] then
        andClear (handleModeChange Help s)
      else if includes_any command [''go back'', ''back'', ''cancel'', ''home''] then
        andClear (handleModeChange Welcome s)
      else if mode s = Login \<or> mode s = Register then
        form_commands hasWindow s command
      else (s, [now ClearTranscript]))"

definition login_command :: "bool \<Rightarrow> login_page \<Rightarrow> string \<Rightarrow> login_page \<times> timed_action list" where
  "login_command hasWindow s lastResult =
     (if lastResult = [] \<or> trim lastResult = [] then (s, [])
      else
        let command = trim (toLowerCase lastResult);
            r = login_branch hasWindow s command
        in (fst r, now (PlayTone ''notification'') # snd r))"

text \<open>The state of the component when it is mounted.\<close>

definition initial_page :: login_page where
  "initial_page = \<lparr>mode = Welcome, pin = [], username = [], error = [], isProcessing = False\<rparr>"

section \<open>Turn taking: the two speech controllers\<close>

text \<open>
  Both controllers are callback driven. A controller state holds the React state
  (\<open>isListening\<close>, \<open>isSpeaking\<close>, \<open>transcript\<close>, \<open>lastResult\<close>) and, as a trace, the
  requests sent to the platform services and the console output. The platform answers
  through events; whether \<open>recognition.start()\<close> or \<open>stop()\<close> throws, and whether
  \<open>speechSynthesis.speaking\<close> holds, is decided by the platform and is therefore part of
  the event. Handlers read the current state. The synthesis parameters (rate, pitch,
  volume, language) are not modelled, and no caller passes the optional \<open>callback\<close> of
  the login screen's \<open>speak\<close>.
\<close>

datatype request = RecognitionStart | RecognitionStop | SynthCancel | SynthSpeak string

datatype console = ConsoleLog string | ConsoleError string

subsection \<open>The shared hook (hooks/useVoice.ts), used by the dashboard\<close>

record use_voice =
  isListening :: bool
  isSpeaking :: bool
  transcript :: string
  lastResult :: string
  recognitionRef :: bool
  synthRef :: bool
  requests :: "request list"
  consoleOut :: "console list"

definition request :: "request \<Rightarrow> use_voice \<Rightarrow> use_voice" where
  "request r s = s\<lparr>requests := requests s @ [r]\<rparr>"

definition console_log :: "string \<Rightarrow> use_voice \<Rightarrow> use_voice" where
  "console_log m s = s\<lparr>consoleOut := consoleOut s @ [ConsoleLog m]\<rparr>"

definition console_error :: "string \<Rightarrow> use_voice \<Rightarrow> use_voice" where
  "console_error m s = s\<lparr>consoleOut := consoleOut s @ [ConsoleError m]\<rparr>"

definition startListening :: "bool \<Rightarrow> use_voice \<Rightarrow> use_voice" where
  "startListening throws s =
     (if \<not> recognitionRef s then console_log ''Recognition not available'' s
      else
        let s1 = (if synthRef s then (request SynthCancel s)\<lparr>isSpeaking := False\<rparr> else s);
            s2 = s1\<lparr>transcript := []\<rparr>;
            s3 = request RecognitionStart s2
        in if throws then console_log ''Recognition already started or error:'' s3 else s3)"

definition stopListening :: "bool \<Rightarrow> use_voice \<Rightarrow> use_voice" where
  "stopListening throws s =
     (if \<not> recognitionRef s then s
      else
        let s1 = request RecognitionStop s;
            s2 = (if throws then console_log ''Error stopping recognition:'' s1 else s1)
        in s2\<lparr>isListening := False\<rparr>)"

definition speak :: "string \<Rightarrow> use_voice \<Rightarrow> use_voice" where
  "speak text s =
     (if \<not> synthRef s then console_log ''Speech synthesis not available'' s
      else request (SynthSpeak text) (request SynthCancel s))"

definition stopSpeaking :: "use_voice \<Rightarrow> use_voice" where
  "stopSpeaking s =
     (if \<not> synthRef s then s else (request SynthCancel s)\<lparr>isSpeaking := False\<rparr>)"

definition clearTranscript :: "use_voice \<Rightarrow> use_voice" where
  "clearTranscript s = s\<lparr>transcript := [], lastResult := []\<rparr>"

text \<open>\<open>recognition.onresult\<close>: the results from \<open>resultIndex\<close> on, each with its
  \<open>isFinal\<close> flag, are concatenated into a final and an interim transcript.\<close>

definition finalTranscript :: "(string \<times> bool) list \<Rightarrow> string" where
  "finalTranscript rs = concat (map fst (filter snd rs))"

definition interimTranscript :: "(string \<times> bool) list \<Rightarrow> string" where
  "interimTranscript rs = concat (map fst (filter (\<lambda>r. \<not> snd r) rs))"

definition onresult :: "(string \<times> bool) list \<Rightarrow> use_voice \<Rightarrow> use_voice" where
  "onresult rs s =
     (if finalTranscript rs \<noteq> [] then
        (console_log ''Final transcript:'' s)
          \<lparr>lastResult := trim (finalTranscript rs), transcript := trim (finalTranscript rs)\<rparr>
      else if interimTranscript rs \<noteq> [] then s\<lparr>transcript := interimTranscript rs\<rparr>
      else s)"

definition onstart :: "use_voice \<Rightarrow> use_voice" where
  "onstart s = (console_log ''Speech recognition started'' s)\<lparr>isListening := True\<rparr>"

definition onend :: "use_voice \<Rightarrow> use_voice" where
  "onend s = (console_log ''Speech recognition ended'' s)\<lparr>isListening := False\<rparr>"

definition onerror :: "string \<Rightarrow> use_voice \<Rightarrow> use_voice" where
  "onerror code s =
     (let s1 = console_log (''Speech recognition error: '' @ code) s;
          s2 = (if code \<noteq> ''no-speech'' \<and> code \<noteq> ''aborted''
                then console_error (''Speech recognition error: '' @ code) s1 else s1)
      in s2\<lparr>isListening := False\<rparr>)"

definition utterance_onstart :: "use_voice \<Rightarrow> use_voice" where
  "utterance_onstart s = (console_log ''Speaking:'' s)\<lparr>isSpeaking := True\<rparr>"

definition utterance_onend :: "use_voice \<Rightarrow> use_voice" where
  "utterance_onend s = s\<lparr>isSpeaking := False\<rparr>"

definition utterance_onerror :: "use_voice \<Rightarrow> use_voice" where
  "utterance_onerror s = (console_log ''Speech error:'' s)\<lparr>isSpeaking := False\<rparr>"

datatype hook_event =
    CallStartListening bool
  | CallStopListening bool
  | CallSpeak string
  | CallStopSpeaking
  | CallClearTranscript
  | RecognitionStarted
  | RecognitionResult "(string \<times> bool) list"
  | RecognitionEnded
  | RecognitionError string
  | UtteranceStarted
  | UtteranceEnded
  | UtteranceError

primrec hook_step :: "use_voice \<Rightarrow> hook_event \<Rightarrow> use_voice" where
  "hook_step s (CallStartListening throws) = startListening throws s"
| "hook_step s (CallStopListening throws) = stopListening throws s"
| "hook_step s (CallSpeak text) = speak text s"
| "hook_step s CallStopSpeaking = stopSpeaking s"
| "hook_step s CallClearTranscript = clearTranscript s"
| "hook_step s RecognitionStarted = onstart s"
| "hook_step s (RecognitionResult rs) = onresult rs s"
| "hook_step s RecognitionEnded = onend s"
| "hook_step s (RecognitionError code) = onerror code s"
| "hook_step s UtteranceStarted = utterance_onstart s"
| "hook_step s UtteranceEnded = utterance_onend s"
| "hook_step s UtteranceError = utterance_onerror s"

text \<open>The hook after its effects have run in a browser that supports both services.\<close>

definition hook_init :: use_voice where
  "hook_init = \<lparr>isListening = False, isSpeaking = False, transcript = [], lastResult = [],
                 recognitionRef = True, synthRef = True, requests = [], consoleOut = []\<rparr>"

subsection \<open>The login screen's own controller (\<open>useVoice\<close> in Login.tsx)\<close>

text \<open>A pending \<open>setTimeout\<close>: its delay in milliseconds and which callback it runs.\<close>

datatype timer = RestartAfterEnd | RestartAfterSpeech

record login_voice =
  isListeningL :: bool
  isSpeakingL :: bool
  transcriptL :: string
  lastResultL :: string
  shouldRestartRef :: bool
  recognitionRefL :: bool
  synthRefL :: bool
  timers :: "(nat \<times> timer) list"
  requestsL :: "request list"
  consoleOutL :: "console list"

definition requestL :: "request \<Rightarrow> login_voice \<Rightarrow> login_voice" where
  "requestL r s = s\<lparr>requestsL := requestsL s @ [r]\<rparr>"

definition logL :: "string \<Rightarrow> login_voice \<Rightarrow> login_voice" where
  "logL m s = s\<lparr>consoleOutL := consoleOutL s @ [ConsoleLog m]\<rparr>"

definition errorL :: "string \<Rightarrow> login_voice \<Rightarrow> login_voice" where
  "errorL m s = s\<lparr>consoleOutL := consoleOutL s @ [ConsoleError m]\<rparr>"

definition setTimeoutL :: "nat \<Rightarrow> timer \<Rightarrow> login_voice \<Rightarrow> login_voice" where
  "setTimeoutL d t s = s\<lparr>timers := timers s @ [(d, t)]\<rparr>"

definition startListeningL :: "bool \<Rightarrow> login_voice \<Rightarrow> login_voice" where
  "startListeningL throws s =
     (if recognitionRefL s \<and> \<not> isListeningL s then
        let s1 = s\<lparr>transcriptL := [], lastResultL := [], shouldRestartRef := True\<rparr>;
            s2 = requestL RecognitionStart s1
        in if throws then errorL ''Error starting recognition:'' s2
           else logL ''Started listening'' (s2\<lparr>isListeningL := True\<rparr>)
      else s)"

definition stopListeningL :: "bool \<Rightarrow> login_voice \<Rightarrow> login_voice" where
  "stopListeningL throws s =
     (let s1 = s\<lparr>shouldRestartRef := False\<rparr> in
      if recognitionRefL s1 \<and> isListeningL s1 then
        let s2 = requestL RecognitionStop s1
        in if throws then errorL ''Error stopping recognition:'' s2
           else logL ''Stopped listening'' (s2\<lparr>isListeningL := False\<rparr>)
      else s1)"

definition speakL :: "string \<Rightarrow> login_voice \<Rightarrow> login_voice" where
  "speakL text s =
     (if synthRefL s then
        let s1 = (if isListeningL s
                  then (let s0 = s\<lparr>shouldRestartRef := False\<rparr>
                        in if recognitionRefL s0 then requestL RecognitionStop s0 else s0)
                  else s)
        in requestL (SynthSpeak text) (requestL SynthCancel s1)
      else s)"

definition clearTranscriptL :: "login_voice \<Rightarrow> login_voice" where
  "clearTranscriptL s = s\<lparr>transcriptL := [], lastResultL := []\<rparr>"

text \<open>\<open>recognition.onresult\<close> reads only \<open>event.results[event.resultIndex]\<close>.\<close>

definition onresultL :: "string \<Rightarrow> bool \<Rightarrow> login_voice \<Rightarrow> login_voice" where
  "onresultL transcriptText isFinal s =
     (let s1 = s\<lparr>transcriptL := transcriptText\<rparr> in
      if isFinal then logL ''Final result:'' (s1\<lparr>lastResultL := transcriptText\<rparr>) else s1)"

definition onerrorL :: "string \<Rightarrow> login_voice \<Rightarrow> login_voice" where
  "onerrorL code s = errorL (''Speech recognition error: '' @ code) s"

definition onendL :: "bool \<Rightarrow> login_voice \<Rightarrow> login_voice" where
  "onendL synthSpeaking s =
     (let s1 = (logL ''Recognition ended'' s)\<lparr>isListeningL := False\<rparr> in
      if shouldRestartRef s1 \<and> \<not> (synthRefL s1 \<and> synthSpeaking)
      then setTimeoutL 100 RestartAfterEnd s1 else s1)"

definition utterance_onstartL :: "login_voice \<Rightarrow> login_voice" where
  "utterance_onstartL s = logL ''Speaking started'' (s\<lparr>isSpeakingL := True\<rparr>)"

definition utterance_onendL :: "login_voice \<Rightarrow> login_voice" where
  "utterance_onendL s =
     (let s1 = logL ''Speaking ended'' (s\<lparr>isSpeakingL := False\<rparr>);
          s2 = s1\<lparr>shouldRestartRef := True\<rparr>
      in if recognitionRefL s2 then setTimeoutL 50 RestartAfterSpeech s2 else s2)"

text \<open>The body shared by both timer callbacks:
  \<open>try { recognition.start(); setIsListening(true); log } catch { log }\<close>.\<close>

definition restart_callback :: "timer \<Rightarrow> bool \<Rightarrow> login_voice \<Rightarrow> login_voice" where
  "restart_callback t throws s =
     (let s1 = requestL RecognitionStart s in
      if throws then
        logL (case t of RestartAfterEnd \<Rightarrow> ''Recognition restart skipped''
                      | RestartAfterSpeech \<Rightarrow> ''Restart handled by onend'') s1
      else
        logL (case t of RestartAfterEnd \<Rightarrow> ''Auto-restarted immediately''
                      | RestartAfterSpeech \<Rightarrow> ''Mic restarted INSTANTLY after speech'')
             (s1\<lparr>isListeningL := True\<rparr>))"

text \<open>A timer fires only if it is pending; it is then removed and its callback runs.\<close>

definition timer_fires :: "nat \<Rightarrow> timer \<Rightarrow> bool \<Rightarrow> login_voice \<Rightarrow> login_voice" where
  "timer_fires d t throws s =
     (if (d, t) \<in> set (timers s)
      then restart_callback t throws (s\<lparr>timers := remove1 (d, t) (timers s)\<rparr>)
      else s)"

datatype login_event =
    LCallStartListening bool
  | LCallStopListening bool
  | LCallSpeak string
  | LCallClearTranscript
  | LRecognitionResult string bool
  | LRecognitionEnded bool
  | LRecognitionError string
  | LUtteranceStarted
  | LUtteranceEnded
  | LTimerFires nat timer bool

primrec login_step :: "login_voice \<Rightarrow> login_event \<Rightarrow> login_voice" where
  "login_step s (LCallStartListening throws) = startListeningL throws s"
| "login_step s (LCallStopListening throws) = stopListeningL throws s"
| "login_step s (LCallSpeak text) = speakL text s"
| "login_step s LCallClearTranscript = clearTranscriptL s"
| "login_step s (LRecognitionResult t f) = onresultL t f s"
| "login_step s (LRecognitionEnded synthSpeaking) = onendL synthSpeaking s"
| "login_step s (LRecognitionError code) = onerrorL code s"
| "login_step s LUtteranceStarted = utterance_onstartL s"
| "login_step s LUtteranceEnded = utterance_onendL s"
| "login_step s (LTimerFires d t throws) = timer_fires d t throws s"

definition login_voice_init :: login_voice where
  "login_voice_init =
     \<lparr>isListeningL = False, isSpeakingL = False, transcriptL = [], lastResultL = [],
      shouldRestartRef = True, recognitionRefL = True, synthRefL = True,
      timers = [], requestsL = [], consoleOutL = []\<rparr>"

section \<open>The classifier as an ordered rule table\<close>

text \<open>
  The specification describes classification as an ordered list of pairs of a predicate
  ("the transcript contains any of these substrings") and an intent: the first match
  returns, and exhausting the list gives no intent. \<open>first_match\<close> is that description;
  the tables below list the keyword sets in the order in which the sources test them.
\<close>

primrec first_match :: "(string list \<times> 'a) list \<Rightarrow> string \<Rightarrow> 'a option" where
  "first_match [] command = None"
| "first_match (r # rs) command =
     (if includes_any command (fst r) then Some (snd r) else first_match rs command)"

datatype dashboard_intent =
  ITeach | IExam | ILevel | ISchemes | IJobs | IHistory | IHome | IRepeat | ILogout | IHelp

definition dashboard_rules :: "(string list \<times> dashboard_intent) list" where
  "dashboard_rules =
     [([''teach me'', ''teach''], ITeach),
      ([''exam'', ''prepare''], IExam),
      ([''level'', ''check''], ILevel),
      ([''scheme'', ''government''], ISchemes),
      ([''job'', ''work'', ''employment''], IJobs),
      ([''continue'', ''resume'', ''history''], IHistory),
      ([''home'', ''dashboard'', ''main menu''], IHome),
      ([''repeat'', ''say again''], IRepeat),
      ([''logout'', ''log out'', ''exit''], ILogout),
      ([''help''], IHelp)]"

primrec dashboard_apply :: "dashboard_intent \<Rightarrow> dashboard \<Rightarrow> dashboard \<times> timed_action list" where
  "dashboard_apply ITeach s = (s\<lparr>currentMode := Teach\<rparr>, [now (Speak teach_text)])"
| "dashboard_apply IExam s = (s\<lparr>currentMode := Exam\<rparr>, [now (Speak exam_text)])"
| "dashboard_apply ILevel s = (s\<lparr>currentMode := Level\<rparr>, [now (Speak level_text)])"
| "dashboard_apply ISchemes s = (s\<lparr>currentMode := Schemes\<rparr>, [now (Speak schemes_text)])"
| "dashboard_apply IJobs s = (s\<lparr>currentMode := Jobs\<rparr>, [now (Speak jobs_text)])"
| "dashboard_apply IHistory s = (s\<lparr>currentMode := History\<rparr>, [now (Speak history_text)])"
| "dashboard_apply IHome s = (s\<lparr>currentMode := Home\<rparr>, [now (Speak home_text)])"
| "dashboard_apply IRepeat s = (s, speakModeInstructions (currentMode s))"
| "dashboard_apply ILogout s = (s, [now (Speak logout_text), (1500, Navigate ''/'')])"
| "dashboard_apply IHelp s = (s, [now (Speak help_text)])"

datatype login_intent = GoLogin | GoRegister | GoHelp | GoWelcome | ClearForm | Submit

definition login_rules :: "AuthMode \<Rightarrow> (string list \<times> login_intent) list" where
  "login_rules m =
     [([''login'', ''log in'', ''sign in''], GoLogin),
      ([''register'', ''sign up'', ''signup'', ''create account''], GoRegister),
      ([''help''], GoHelp),
      ([''go back'', ''back'', ''cancel'', ''home''], GoWelcome)]
     @ (if m = Login \<or> m = Register
        then [([''clear'', ''clear form'', ''start over'', ''reset''], ClearForm),
              ([''submit'', ''confirm'', ''done'', ''finish''], Submit)]
        else [])"

primrec login_apply :: "bool \<Rightarrow> login_intent \<Rightarrow> login_page \<Rightarrow> login_page \<times> timed_action list" where
  "login_apply w GoLogin s = andClear (handleModeChange Login s)"
| "login_apply w GoRegister s = andClear (handleModeChange Register s)"
| "login_apply w GoHelp s = andClear (handleModeChange Help s)"
| "login_apply w GoWelcome s = andClear (handleModeChange Welcome s)"
| "login_apply w ClearForm s = andClear (handleClearForm s)"
| "login_apply w Submit s = andClear (handleSubmit w s)"

text \<open>
  A transcript is unrecognized when no rule of the active mode matches it and, in the
  form modes of the login screen, it neither yields a username nor contains a digit or a
  number word standing alone.
\<close>

definition captures_username :: "login_page \<Rightarrow> string \<Rightarrow> bool" where
  "captures_username s command =
     (username s = [] \<and> \<not> hasNumbers command \<and> 2 \<le> length command
      \<and> 2 \<le> length (cleanUsername command))"

definition login_unrecognized :: "login_page \<Rightarrow> string \<Rightarrow> bool" where
  "login_unrecognized s command =
     (first_match (login_rules (mode s)) command = None
      \<and> (if mode s = Login \<or> mode s = Register
         then \<not> captures_username s command \<and> numbers command = []
         else True))"

definition dashboard_unrecognized :: "string \<Rightarrow> bool" where
  "dashboard_unrecognized command = (first_match dashboard_rules command = None)"

section \<open>Dashboard: a concrete two-keyword transcript\<close>

text \<open>
  C6. On the dashboard the transcript "help me prepare for exam" is handled by the exam
  branch: the mode becomes \<open>Exam\<close> and the only text spoken is the exam prompt, not the
  help text, whatever the mode and the mute setting were before.
\<close>

theorem dashboard_help_me_prepare_for_exam:
  "currentMode (fst (dashboard_command s ''help me prepare for exam'')) = Exam
   \<and> spoken (snd (dashboard_command s ''help me prepare for exam'')) = [now (Speak exam_text)]
   \<and> exam_text \<noteq> help_text"
proof -
  have c: "trim (toLowerCase ''help me prepare for exam'') = ''help me prepare for exam''"
    by code_simp
  have t: "\<not> includes_any ''help me prepare for exam'' [''teach me'', ''teach'']"
    by code_simp
  have e: "includes_any ''help me prepare for exam'' [''exam'', ''prepare'']"
    by code_simp
  have b: "dashboard_branch s ''help me prepare for exam''
             = (s\<lparr>currentMode := Exam\<rparr>, [now (Speak exam_text)])"
    unfolding dashboard_branch_def using t e by simp
  have d: "exam_text \<noteq> help_text"
    by code_simp
  show ?thesis
    using b c d by (simp add: dashboard_command_def Let_def spoken_def now_def)
qed

section \<open>Turn taking: capture and output can overlap\<close>

text \<open>
  C1. The claim is that \<open>isListening\<close> and \<open>isSpeaking\<close> are never true together. In
  hooks/useVoice.ts \<open>speak\<close> never stops capture: after \<open>startListening()\<close> and the
  platform's \<open>onstart\<close>, a \<open>speak\<close> followed by the utterance's \<open>onstart\<close> leaves both
  flags true, and no stop request was ever sent. In Login.tsx \<open>startListening\<close> never
  cancels output: called while an utterance is playing it sets \<open>isListening\<close> at once.
\<close>

theorem capture_output_overlap:
  "isListening (foldl hook_step hook_init
      [CallStartListening False, RecognitionStarted,
       CallSpeak ''Returning to main dashboard.'', UtteranceStarted])
   \<and> isSpeaking (foldl hook_step hook_init
      [CallStartListening False, RecognitionStarted,
       CallSpeak ''Returning to main dashboard.'', UtteranceStarted])
   \<and> RecognitionStop \<notin> set (requests (foldl hook_step hook_init
      [CallStartListening False, RecognitionStarted,
       CallSpeak ''Returning to main dashboard.'', UtteranceStarted]))
   \<and> isListeningL (foldl login_step login_voice_init
      [LCallSpeak ''Welcome screen.'', LUtteranceStarted, LCallStartListening False])
   \<and> isSpeakingL (foldl login_step login_voice_init
      [LCallSpeak ''Welcome screen.'', LUtteranceStarted, LCallStartListening False])"
  by code_simp

section \<open>Turn taking: restart after speech on the login screen\<close>

text \<open>
  C2, as the code has it. When an utterance ends, the login screen's controller clears
  \<open>isSpeaking\<close>, sets \<open>shouldRestartRef\<close> to true whatever it was, and arms a 50 ms timer;
  when the timer fires and \<open>recognition.start()\<close> is accepted, \<open>isListening\<close> is true and
  a start request has been sent (if the platform rejects the start, the flag is left as
  it was). This holds in every state with a recognition object, and so also right after
  an explicit \<open>stopListening()\<close>: the stop does not suppress the restart.
\<close>

theorem restart_after_speech:
  assumes "recognitionRefL s"
  shows "isSpeakingL (utterance_onendL s) = False
   \<and> shouldRestartRef (utterance_onendL s) = True
   \<and> timers (utterance_onendL s) = timers s @ [(50, RestartAfterSpeech)]
   \<and> isListeningL (timer_fires 50 RestartAfterSpeech False (utterance_onendL s)) = True
   \<and> requestsL (timer_fires 50 RestartAfterSpeech False (utterance_onendL s))
       = requestsL s @ [RecognitionStart]
   \<and> isListeningL (timer_fires 50 RestartAfterSpeech True (utterance_onendL s)) = isListeningL s
   \<and> isListeningL (timer_fires 50 RestartAfterSpeech False
        (utterance_onendL (stopListeningL t s))) = True"
proof -
  have r: "recognitionRefL (stopListeningL t s)"
    using assms by (simp add: stopListeningL_def Let_def requestL_def errorL_def logL_def)
  have f: "\<And>u. recognitionRefL u \<Longrightarrow>
      isListeningL (timer_fires 50 RestartAfterSpeech False (utterance_onendL u)) = True"
    by (simp add: utterance_onendL_def timer_fires_def restart_callback_def Let_def
          requestL_def logL_def setTimeoutL_def)
  have a: "isSpeakingL (utterance_onendL s) = False
     \<and> shouldRestartRef (utterance_onendL s) = True
     \<and> timers (utterance_onendL s) = timers s @ [(50, RestartAfterSpeech)]"
    using assms by (simp add: utterance_onendL_def Let_def logL_def setTimeoutL_def)
  have b: "requestsL (timer_fires 50 RestartAfterSpeech False (utterance_onendL s))
       = requestsL s @ [RecognitionStart]"
    using assms
    by (simp add: utterance_onendL_def timer_fires_def restart_callback_def Let_def
          requestL_def logL_def setTimeoutL_def)
  have c: "isListeningL (timer_fires 50 RestartAfterSpeech True (utterance_onendL s)) = isListeningL s"
    using assms
    by (simp add: utterance_onendL_def timer_fires_def restart_callback_def Let_def
          requestL_def logL_def setTimeoutL_def)
  from a b c f [OF assms] f [OF r] show ?thesis by blast
qed

theorem restart_after_speech_witness:
  "recognitionRefL login_voice_init
   \<and> timers (utterance_onendL login_voice_init) = [(50, RestartAfterSpeech)]
   \<and> isListeningL (timer_fires 50 RestartAfterSpeech False (utterance_onendL login_voice_init)) = True"
proof -
  have h: "recognitionRefL login_voice_init" by (simp add: login_voice_init_def)
  have t: "timers login_voice_init = []" by (simp add: login_voice_init_def)
  from restart_after_speech [OF h, of False] h t show ?thesis by simp
qed

text \<open>
  The claim as stated fails: an explicit stop issued while the utterance plays records
  \<open>shouldRestartRef = False\<close>, yet after the utterance ends and the timer fires capture
  is active again and a start request has been sent.
\<close>

theorem stop_during_speech_still_restarts:
  "shouldRestartRef (foldl login_step login_voice_init
      [LCallSpeak ''Login mode.'', LUtteranceStarted, LCallStopListening False]) = False
   \<and> isListeningL (foldl login_step login_voice_init
      [LCallSpeak ''Login mode.'', LUtteranceStarted, LCallStopListening False]) = False
   \<and> isListeningL (foldl login_step login_voice_init
      [LCallSpeak ''Login mode.'', LUtteranceStarted, LCallStopListening False,
       LUtteranceEnded, LTimerFires 50 RestartAfterSpeech False]) = True
   \<and> requestsL (foldl login_step login_voice_init
      [LCallSpeak ''Login mode.'', LUtteranceStarted, LCallStopListening False,
       LUtteranceEnded, LTimerFires 50 RestartAfterSpeech False])
       = [SynthCancel, SynthSpeak ''Login mode.'', RecognitionStart]"
  by code_simp

section \<open>Credential submission\<close>

text \<open>
  C3. \<open>handleSubmit\<close> takes the error path (it plays the error tone) exactly when the
  username is empty or the pin is shorter than 4. On that path it sets the error message,
  speaks it and plays the tone, writes nothing to storage, navigates nowhere and leaves
  the mode and the draft as they were. Otherwise, in a browser, it writes
  \<open>isLoggedIn = true\<close> and the username and navigates to \<open>/dashboard\<close> after the fixed
  delays (1500 ms, then 2500 ms).
\<close>

theorem submit_contract:
  "(now (PlayTone ''error'') \<in> set (snd (handleSubmit w s))) = (username s = [] \<or> length (pin s) < 4)
   \<and> (username s = [] \<or> length (pin s) < 4 \<longrightarrow>
        fst (handleSubmit w s) = s\<lparr>error := ''Please provide username and at least 4-digit pin''\<rparr>
        \<and> snd (handleSubmit w s) =
            [now (Speak ''Error. Provide username and at least 4 digit pin.''), now (PlayTone ''error'')]
        \<and> writes (snd (handleSubmit w s)) = []
        \<and> storage_after (snd (handleSubmit w s)) m = m
        \<and> navigations (snd (handleSubmit w s)) = []
        \<and> mode (fst (handleSubmit w s)) = mode s)
   \<and> (username s \<noteq> [] \<and> 4 \<le> length (pin s) \<longrightarrow>
        fst (handleSubmit True s) = s\<lparr>isProcessing := True\<rparr>
        \<and> writes (snd (handleSubmit True s)) =
            [(1500, SetItem ''isLoggedIn'' ''true''), (1500, SetItem ''username'' (username s))]
        \<and> storage_after (snd (handleSubmit True s)) m =
            m(''isLoggedIn'' \<mapsto> ''true'', ''username'' \<mapsto> username s)
        \<and> navigations (snd (handleSubmit True s)) = [(1500 + 2500, Navigate ''/dashboard'')])"
  by (simp add: handleSubmit_def writes_def navigations_def now_def)

theorem submit_contract_witness:
  "snd (handleSubmit True \<lparr>mode = Login, pin = ''123'', username = [], error = [], isProcessing = False\<rparr>)
     = [now (Speak ''Error. Provide username and at least 4 digit pin.''), now (PlayTone ''error'')]
   \<and> storage_after (snd (handleSubmit True
        \<lparr>mode = Login, pin = ''123'', username = [], error = [], isProcessing = False\<rparr>)) Map.empty = Map.empty
   \<and> storage_after (snd (handleSubmit True
        \<lparr>mode = Login, pin = ''4821'', username = ''ana'', error = [], isProcessing = False\<rparr>)) Map.empty
       = [''isLoggedIn'' \<mapsto> ''true'', ''username'' \<mapsto> ''ana'']
   \<and> navigations (snd (handleSubmit True
        \<lparr>mode = Login, pin = ''4821'', username = ''ana'', error = [], isProcessing = False\<rparr>))
       = [(4000, Navigate ''/dashboard'')]"
  using submit_contract [of True "\<lparr>mode = Login, pin = ''123'', username = [], error = [], isProcessing = False\<rparr>" Map.empty]
        submit_contract [of True "\<lparr>mode = Login, pin = ''4821'', username = ''ana'', error = [], isProcessing = False\<rparr>" Map.empty]
  by (simp add: now_def)

section \<open>The order of the intent predicates\<close>

text \<open>
  C7, as the code has it. Each screen tests its keyword sets in one fixed order and the
  first match wins. On the dashboard the order is teach, exam, level, schemes, jobs,
  history, then home, repeat, logout, help: content keywords come before the navigation
  keywords, and repeat before logout and help. On the login screen the order is login,
  register, help, back/cancel/home, then in the login and register modes clear, submit,
  and only then the username and PIN capture. In any rule list a later rule decides only
  if no earlier rule matches.
\<close>

theorem classification_order:
  "dashboard_branch d c =
     (case first_match dashboard_rules c of None \<Rightarrow> (d, []) | Some i \<Rightarrow> dashboard_apply i d)
   \<and> login_branch w s c =
     (case first_match (login_rules (mode s)) c of
        Some i \<Rightarrow> login_apply w i s
      | None \<Rightarrow> if mode s = Login \<or> mode s = Register then credential_capture s c
                else (s, [now ClearTranscript]))
   \<and> first_match (rs1 @ (ks, i) # rs2) c =
     (case first_match rs1 c of
        Some j \<Rightarrow> Some j
      | None \<Rightarrow> if includes_any c ks then Some i else first_match rs2 c)"
proof -
  have a: "dashboard_branch d c =
     (case first_match dashboard_rules c of None \<Rightarrow> (d, []) | Some i \<Rightarrow> dashboard_apply i d)"
    by (simp add: dashboard_branch_def dashboard_rules_def)
  have b: "login_branch w s c =
     (case first_match (login_rules (mode s)) c of
        Some i \<Rightarrow> login_apply w i s
      | None \<Rightarrow> if mode s = Login \<or> mode s = Register then credential_capture s c
                else (s, [now ClearTranscript]))"
    by (simp add: login_branch_def form_commands_def login_rules_def)
  have c: "first_match (rs1 @ (ks, i) # rs2) c =
     (case first_match rs1 c of
        Some j \<Rightarrow> Some j
      | None \<Rightarrow> if includes_any c ks then Some i else first_match rs2 c)"
    by (induction rs1) simp_all
  from a b c show ?thesis by blast
qed

text \<open>
  The claim as stated fails. On the dashboard a transcript with the navigation keyword
  "home" and the content keyword "teach" goes to the teach mode, and one with the
  navigation keyword "logout" and the generic keyword "repeat" repeats the instructions.
  On the login screen, in login mode, a transcript with the generic keyword "reset" and
  the digits 1 2 3 4 clears the form and adds nothing to the pin.
\<close>

theorem dashboard_content_beats_navigation:
  "includes_any ''take me home to teach'' [''home'', ''dashboard'', ''main menu'']
   \<and> currentMode (fst (dashboard_command \<lparr>currentMode = Exam, isMuted = False\<rparr> ''Take me home to teach'')) = Teach
   \<and> includes_any ''logout and repeat'' [''logout'', ''log out'', ''exit'']
   \<and> snd (dashboard_command \<lparr>currentMode = Exam, isMuted = False\<rparr> ''logout and repeat'')
       = [now (PlayTone ''notification''), now (Speak (instructions Exam)), now ClearTranscript]
   \<and> numbers ''reset 1 2 3 4'' = ''1234''
   \<and> fst (login_command True (initial_page\<lparr>mode := Login, username := ''rahul''\<rparr>) ''reset 1 2 3 4'')
       = initial_page\<lparr>mode := Login\<rparr>"
  by code_simp

section \<open>Capture errors\<close>

text \<open>
  C8, as the code has it. In hooks/useVoice.ts every error code clears \<open>isListening\<close>;
  "no-speech" and "aborted" are written to the console as a plain log line only, every
  other code also as an error line; nothing is sent to the platform and nothing else
  changes. In Login.tsx every error code is written to the console as an error line and
  nothing else changes: \<open>isListening\<close> and \<open>shouldRestartRef\<close> keep their values, so the
  restart timer of the following \<open>onend\<close> is armed exactly when \<open>shouldRestartRef\<close> held.
\<close>

theorem capture_error_handlers:
  "isListening (onerror code h) = False
   \<and> consoleOut (onerror code h) =
       consoleOut h @ ConsoleLog (''Speech recognition error: '' @ code)
         # (if code \<noteq> ''no-speech'' \<and> code \<noteq> ''aborted''
            then [ConsoleError (''Speech recognition error: '' @ code)] else [])
   \<and> requests (onerror code h) = requests h
   \<and> isSpeaking (onerror code h) = isSpeaking h
   \<and> lastResult (onerror code h) = lastResult h
   \<and> onerrorL code l = l\<lparr>consoleOutL := consoleOutL l @ [ConsoleError (''Speech recognition error: '' @ code)]\<rparr>
   \<and> isListeningL (onerrorL code l) = isListeningL l
   \<and> shouldRestartRef (onerrorL code l) = shouldRestartRef l
   \<and> timers (onendL False (onerrorL code l)) =
       timers l @ (if shouldRestartRef l then [(100, RestartAfterEnd)] else [])"
  by (simp add: onerror_def onerrorL_def onendL_def console_log_def console_error_def
        errorL_def logL_def setTimeoutL_def Let_def)

text \<open>
  The claim as stated fails on the login screen: after a "network" error the controller
  still reports capture as active.
\<close>

theorem login_error_keeps_capturing:
  "isListeningL (foldl login_step login_voice_init
      [LCallStartListening False, LRecognitionError ''network'']) = True"
  by code_simp

section \<open>Auxiliary facts about the login command effect\<close>

lemma dashboard_branch_rules:
  "dashboard_branch d c =
     (case first_match dashboard_rules c of None \<Rightarrow> (d, []) | Some i \<Rightarrow> dashboard_apply i d)"
  by (simp add: dashboard_branch_def dashboard_rules_def)

lemma login_branch_rules:
  "login_branch w s c =
     (case first_match (login_rules (mode s)) c of
        Some i \<Rightarrow> login_apply w i s
      | None \<Rightarrow> if mode s = Login \<or> mode s = Register then credential_capture s c
                else (s, [now ClearTranscript]))"
  by (simp add: login_branch_def form_commands_def login_rules_def)

text \<open>A transcript made of digits only passes every keyword test and every number-word
  replacement unchanged.\<close>

lemma digit_code_unit: "isDigit c \<Longrightarrow> 48 \<le> code_unit c \<and> code_unit c \<le> 57"
  by (simp add: isDigit_def Let_def)

lemma toLowerChar_digit: "isDigit c \<Longrightarrow> toLowerChar c = c"
  using digit_code_unit [of c] by (simp add: toLowerChar_def Let_def)

lemma toLowerAscii_digit: "isDigit c \<Longrightarrow> toLowerAscii c = c"
  using digit_code_unit [of c] by (simp add: toLowerAscii_def Let_def)

lemma isWhitespace_digit: "isDigit c \<Longrightarrow> \<not> isWhitespace c"
  using digit_code_unit [of c] by (simp add: isWhitespace_def Let_def)

lemma toLowerCase_digits: "list_all isDigit ds \<Longrightarrow> toLowerCase ds = ds"
  by (induction ds) (simp_all add: toLowerCase_def toLowerChar_digit)

lemma dropWhile_ws_digits: "list_all isDigit ds \<Longrightarrow> dropWhile isWhitespace ds = ds"
  by (cases ds) (simp_all add: isWhitespace_digit)

lemma trim_digits: "list_all isDigit ds \<Longrightarrow> trim ds = ds"
proof -
  assume d: "list_all isDigit ds"
  then have "list_all isDigit (rev ds)" by (simp add: list_all_iff)
  then have "dropWhile isWhitespace (rev ds) = rev ds" by (rule dropWhile_ws_digits)
  with d show ?thesis by (simp add: trim_def dropWhile_ws_digits)
qed

lemma startsWith_digits:
  "isDigit c \<Longrightarrow> k \<noteq> [] \<Longrightarrow> \<not> isDigit (hd k) \<Longrightarrow> \<not> startsWith (c # cs) k"
  by (cases k) auto

lemma includes_str_digits:
  "list_all isDigit s \<Longrightarrow> k \<noteq> [] \<Longrightarrow> \<not> isDigit (hd k) \<Longrightarrow> \<not> includes_str s k"
  by (induction s) (simp_all add: startsWith_digits)

lemma includes_any_digits:
  "list_all isDigit s \<Longrightarrow> list_all (\<lambda>k. k \<noteq> [] \<and> \<not> isDigit (hd k)) ks \<Longrightarrow> \<not> includes_any s ks"
  by (induction ks) (simp_all add: includes_str_digits)

lemma first_match_digits:
  "list_all isDigit s \<Longrightarrow>
   list_all (\<lambda>r. list_all (\<lambda>k. k \<noteq> [] \<and> \<not> isDigit (hd k)) (fst r)) rs \<Longrightarrow>
   first_match rs s = None"
  by (induction rs) (simp_all add: includes_any_digits)

lemma login_rules_letters:
  "list_all (\<lambda>r. list_all (\<lambda>k. k \<noteq> [] \<and> \<not> isDigit (hd k)) (fst r)) (login_rules m)"
proof -
  have a: "list_all (\<lambda>r. list_all (\<lambda>k. k \<noteq> [] \<and> \<not> isDigit (hd k)) (fst r)) (login_rules Login)"
    by code_simp
  have b: "list_all (\<lambda>r. list_all (\<lambda>k. k \<noteq> [] \<and> \<not> isDigit (hd k)) (fst r)) (login_rules Welcome)"
    by code_simp
  have "login_rules m = login_rules Login \<or> login_rules m = login_rules Welcome"
    by (cases m) (simp_all add: login_rules_def)
  with a b show ?thesis by auto
qed

lemma replaceWordFrom_digits:
  "list_all isDigit s \<Longrightarrow> w \<noteq> [] \<Longrightarrow> \<not> isDigit (hd w) \<Longrightarrow> replaceWordFrom w d p 0 s = s"
proof (induction s arbitrary: p)
  case Nil
  then show ?case by simp
next
  case (Cons c cs)
  then obtain k ks where w: "w = k # ks" by (cases w) auto
  from Cons.prems have "isDigit c" and "\<not> isDigit k" by (simp_all add: w)
  then have "toLowerAscii c \<noteq> k" by (auto simp: toLowerAscii_digit)
  then have "\<not> matchWordAt w (c # cs)" by (simp add: w)
  with Cons show ?case by simp
qed

lemma foldl_replaceWord_digits:
  "list_all isDigit s \<Longrightarrow>
   list_all (\<lambda>wd. fst wd \<noteq> [] \<and> \<not> isDigit (hd (fst wd))) ws \<Longrightarrow>
   foldl (\<lambda>acc wd. replaceWord (fst wd) (snd wd) acc) s ws = s"
  by (induction ws) (simp_all add: replaceWord_def replaceWordFrom_digits)

lemma numberWords_letters:
  "list_all (\<lambda>wd. fst wd \<noteq> [] \<and> \<not> isDigit (hd (fst wd))) numberWords"
  by code_simp

lemma numbers_digits:
  assumes "list_all isDigit s"
  shows "numbers s = s"
proof -
  have "processedCommand s = s"
    unfolding processedCommand_def using assms numberWords_letters
    by (rule foldl_replaceWord_digits)
  moreover have "filter isDigit s = s"
    using assms by (simp add: list_all_iff)
  ultimately show ?thesis by (simp add: numbers_def)
qed

lemma hasNumbers_digits: "list_all isDigit s \<Longrightarrow> s \<noteq> [] \<Longrightarrow> hasNumbers s"
  by (cases s) (simp_all add: hasNumbers_def)

lemma digits_utterance:
  assumes d: "list_all isDigit ds" and n: "ds \<noteq> []" and m: "mode s = Login \<or> mode s = Register"
  shows "fst (login_command w s ds) = s\<lparr>pin := take 6 (pin s @ ds)\<rparr>"
proof -
  have c: "trim (toLowerCase ds) = ds" using d by (simp add: toLowerCase_digits trim_digits)
  have t: "trim ds = ds" using d by (rule trim_digits)
  have f: "first_match (login_rules (mode s)) ds = None"
    using d login_rules_letters by (rule first_match_digits)
  have p: "fst (pin_detection s ds) = s\<lparr>pin := take 6 (pin s @ ds)\<rparr>"
    using d n by (simp add: pin_detection_def numbers_digits Let_def)
  have cc: "credential_capture s ds = pin_detection s ds"
    using d n by (simp add: credential_capture_def hasNumbers_digits)
  show ?thesis
    using n m by (simp add: login_command_def Let_def c t login_branch_rules f cc p)
qed

lemma numbers_all_digits: "list_all isDigit (numbers c)"
  by (simp add: numbers_def list_all_iff)

lemma login_apply_pin: "pin (fst (login_apply w i s)) = pin s \<or> pin (fst (login_apply w i s)) = []"
  by (cases i)
     (simp_all add: andClear_def handleModeChange_def handleClearForm_def handleSubmit_def Let_def)

lemma pin_detection_pin:
  "pin (fst (pin_detection s c)) = (if numbers c = [] then pin s else take 6 (pin s @ numbers c))"
  by (simp add: pin_detection_def Let_def)

lemma credential_capture_pin:
  "pin (fst (credential_capture s c)) = pin s
   \<or> pin (fst (credential_capture s c)) = take 6 (pin s @ numbers c)"
  by (simp add: credential_capture_def pin_detection_pin)

lemma login_branch_pin:
  "pin (fst (login_branch w s c)) = pin s
   \<or> pin (fst (login_branch w s c)) = []
   \<or> pin (fst (login_branch w s c)) = take 6 (pin s @ numbers c)"
proof (cases "first_match (login_rules (mode s)) c")
  case None
  with credential_capture_pin [of s c] show ?thesis
    by (auto simp: login_branch_rules)
next
  case (Some i)
  with login_apply_pin [of w i s] show ?thesis
    by (auto simp: login_branch_rules)
qed

lemma pin_cases:
  "pin (fst (login_command w s t)) = pin s
   \<or> pin (fst (login_command w s t)) = []
   \<or> pin (fst (login_command w s t)) = take 6 (pin s @ numbers (trim (toLowerCase t)))"
proof (cases "t = [] \<or> trim t = []")
  case True
  then show ?thesis by (auto simp: login_command_def)
next
  case False
  then have "fst (login_command w s t) = fst (login_branch w s (trim (toLowerCase t)))"
    by (simp add: login_command_def Let_def)
  with login_branch_pin [of w s "trim (toLowerCase t)"] show ?thesis by simp
qed

lemma pin_digits_preserved:
  assumes "list_all isDigit (pin s)"
  shows "list_all isDigit (pin (fst (login_command w s t)))"
proof -
  have "list_all isDigit (take 6 (pin s @ numbers (trim (toLowerCase t))))"
    using assms numbers_all_digits [of "trim (toLowerCase t)"]
    by (auto simp: list_all_iff dest: in_set_takeD)
  with assms pin_cases [of w s t] show ?thesis by auto
qed

lemma pin_length_preserved:
  assumes "length (pin s) \<le> 6"
  shows "length (pin (fst (login_command w s t))) \<le> 6"
  using assms pin_cases [of w s t] by auto


text \<open>The utterances of the accumulation scenario, normalized and classified.\<close>

lemma no_rule_fresh:
  "first_match (login_rules Login) ''rahul'' = None"
  "first_match (login_rules Register) ''rahul'' = None"
  "first_match (login_rules Login) ''one two three four'' = None"
  "first_match (login_rules Register) ''one two three four'' = None"
  "first_match (login_rules Login) ''one two three four five six seven'' = None"
  "first_match (login_rules Register) ''one two three four five six seven'' = None"
  by code_simp+

lemma normalized_fresh:
  "trim ''rahul'' = ''rahul''"
  "trim (toLowerCase ''rahul'') = ''rahul''"
  "trim ''one two three four'' = ''one two three four''"
  "trim (toLowerCase ''one two three four'') = ''one two three four''"
  "trim ''one two three four five six seven'' = ''one two three four five six seven''"
  "trim (toLowerCase ''one two three four five six seven'') = ''one two three four five six seven''"
  by code_simp+

lemma capture_fresh:
  "hasNumbers ''rahul'' = False"
  "cleanUsername ''rahul'' = ''rahul''"
  "hasNumbers ''one two three four five six seven'' = True"
  "numbers ''one two three four'' = ''1234''"
  "numbers ''one two three four five six seven'' = ''1234567''"
  by code_simp+

lemma rahul_then_digits:
  assumes "m = Login \<or> m = Register"
  shows "fst (login_command w (fst (login_command w (initial_page\<lparr>mode := m\<rparr>) ''rahul'')) ''one two three four'')
         = initial_page\<lparr>mode := m, username := ''rahul'', pin := ''1234''\<rparr>"
proof -
  have a: "fst (login_command w (initial_page\<lparr>mode := m\<rparr>) ''rahul'')
           = initial_page\<lparr>mode := m, username := ''rahul''\<rparr>"
    using assms
    by (auto simp: login_command_def Let_def login_branch_rules normalized_fresh no_rule_fresh
          credential_capture_def capture_fresh initial_page_def)
  have b: "fst (login_command w (initial_page\<lparr>mode := m, username := ''rahul''\<rparr>) ''one two three four'')
           = initial_page\<lparr>mode := m, username := ''rahul'', pin := ''1234''\<rparr>"
    using assms
    by (auto simp: login_command_def Let_def login_branch_rules normalized_fresh no_rule_fresh
          credential_capture_def pin_detection_def capture_fresh initial_page_def)
  from a b show ?thesis by simp
qed

lemma seven_words:
  assumes "m = Login \<or> m = Register"
  shows "pin (fst (login_command w (initial_page\<lparr>mode := m\<rparr>) ''one two three four five six seven'')) = ''123456''"
  using assms
  by (auto simp: login_command_def Let_def login_branch_rules normalized_fresh no_rule_fresh
        credential_capture_def pin_detection_def capture_fresh initial_page_def)

lemma credential_capture_unrecognized:
  assumes "\<not> captures_username s c" and "numbers c = []"
  shows "credential_capture s c =
     (s, (if username s \<noteq> []
          then [now (Speak (''Username is '' @ username s
                            @ ''. Say numbers for PIN, or say clear to start over.''))]
          else [])
         @ [now ClearTranscript])"
  using assms by (auto simp: credential_capture_def captures_username_def pin_detection_def)

section \<open>Credential accumulation\<close>

text \<open>The sixteen number words, each standing alone, and the digits they become.\<close>

lemma number_word_table:
  "numbers ''zero one two three four five six seven eight nine'' = ''0123456789''"
  "numbers ''oh to too for fore ate'' = ''022448''"
  by code_simp+

text \<open>An utterance that reaches the credential capture and holds at least one digit or
  number word standing alone either becomes the username or is added to the pin.\<close>

lemma capture_or_pin:
  assumes "mode s = Login \<or> mode s = Register"
    and "u \<noteq> []" and "trim u \<noteq> []"
    and "first_match (login_rules (mode s)) (trim (toLowerCase u)) = None"
    and "numbers (trim (toLowerCase u)) \<noteq> []"
  shows "fst (login_command w s u) =
     (if captures_username s (trim (toLowerCase u))
      then s\<lparr>username := cleanUsername (trim (toLowerCase u))\<rparr>
      else s\<lparr>pin := take 6 (pin s @ numbers (trim (toLowerCase u)))\<rparr>)"
  using assms
  by (auto simp: login_command_def Let_def login_branch_rules credential_capture_def
        captures_username_def pin_detection_def)

text \<open>Two utterances that stand for seven digits, normalized and classified.\<close>

lemma misheard_facts:
  "trim ''to to to to to to to'' \<noteq> []"
  "trim (toLowerCase ''to to to to to to to'') = ''to to to to to to to''"
  "first_match (login_rules Login) ''to to to to to to to'' = None"
  "numbers ''to to to to to to to'' = ''2222222''"
  "hasNumbers ''to to to to to to to'' = False"
  "cleanUsername ''to to to to to to to'' = ''to to to to to to to''"
  "trim ''nine nine nine nine nine nine nine'' \<noteq> []"
  "trim (toLowerCase ''nine nine nine nine nine nine nine'') = ''nine nine nine nine nine nine nine''"
  "first_match (login_rules Login) ''nine nine nine nine nine nine nine'' = None"
  "numbers ''nine nine nine nine nine nine nine'' = ''9999999''"
  "hasNumbers ''nine nine nine nine nine nine nine'' = True"
  by code_simp+

text \<open>
  C4, as the code has it. In login or register mode, a fresh draft that hears "rahul"
  and then "one two three four" holds username "rahul" and pin "1234", and one that hears
  seven spelled digits holds the first six. An utterance of digit characters only is
  appended to the pin and the result cut to six characters. In general an utterance that
  matches no command keyword and stands for at least one digit is appended to the pin,
  cut to six characters, unless it is taken as the username: that happens exactly when
  no username is captured yet and the utterance, of two or more characters, contains no
  digit character and none of the words zero to nine. The words zero to nine map to 0-9
  and oh, to, too, for, fore, ate to 0, 2, 2, 4, 4, 8. Whatever is said, a pin of digits
  stays a pin of digits and a pin of at most six characters stays so.
\<close>

theorem credential_accumulation:
  "(m = Login \<or> m = Register \<longrightarrow>
      fst (login_command w (fst (login_command w (initial_page\<lparr>mode := m\<rparr>) ''rahul'')) ''one two three four'')
        = initial_page\<lparr>mode := m, username := ''rahul'', pin := ''1234''\<rparr>
      \<and> pin (fst (login_command w (initial_page\<lparr>mode := m\<rparr>) ''one two three four five six seven''))
        = ''123456'')
   \<and> (mode s = Login \<or> mode s = Register \<longrightarrow> list_all isDigit ds \<and> ds \<noteq> [] \<longrightarrow>
        fst (login_command w s ds) = s\<lparr>pin := take 6 (pin s @ ds)\<rparr>)
   \<and> ((mode s = Login \<or> mode s = Register) \<and> u \<noteq> [] \<and> trim u \<noteq> []
        \<and> first_match (login_rules (mode s)) (trim (toLowerCase u)) = None
        \<and> numbers (trim (toLowerCase u)) \<noteq> [] \<longrightarrow>
        fst (login_command w s u) =
          (if username s = [] \<and> \<not> hasNumbers (trim (toLowerCase u))
              \<and> 2 \<le> length (trim (toLowerCase u))
              \<and> 2 \<le> length (cleanUsername (trim (toLowerCase u)))
           then s\<lparr>username := cleanUsername (trim (toLowerCase u))\<rparr>
           else s\<lparr>pin := take 6 (pin s @ numbers (trim (toLowerCase u)))\<rparr>))
   \<and> numbers ''zero one two three four five six seven eight nine'' = ''0123456789''
   \<and> numbers ''oh to too for fore ate'' = ''022448''
   \<and> (list_all isDigit (pin s) \<longrightarrow> list_all isDigit (pin (fst (login_command w s t))))
   \<and> (length (pin s) \<le> 6 \<longrightarrow> length (pin (fst (login_command w s t))) \<le> 6)"
  using rahul_then_digits [of m w] seven_words [of m w] digits_utterance [of ds s w]
    capture_or_pin [of s u w] number_word_table
    pin_digits_preserved [of s w t] pin_length_preserved [of s w t]
  unfolding captures_username_def
  by blast

theorem credential_accumulation_witness:
  "username (fst (login_command True (fst (login_command True (initial_page\<lparr>mode := Login\<rparr>) ''rahul''))
      ''one two three four'')) = ''rahul''
   \<and> pin (fst (login_command True (fst (login_command True (initial_page\<lparr>mode := Login\<rparr>) ''rahul''))
      ''one two three four'')) = ''1234''
   \<and> pin (fst (login_command True (initial_page\<lparr>mode := Login\<rparr>) ''1234567'')) = ''123456''
   \<and> pin (fst (login_command True (initial_page\<lparr>mode := Login\<rparr>) ''nine nine nine nine nine nine nine''))
       = ''999999''
   \<and> pin (fst (login_command True (initial_page\<lparr>mode := Login, username := ''rahul''\<rparr>) ''to to to to to to to''))
       = ''222222''
   \<and> length (pin (fst (login_command True (initial_page\<lparr>mode := Login\<rparr>) ''9 8 7 6 5 4 3 2 1''))) \<le> 6"
proof -
  let ?s = "initial_page\<lparr>mode := Login\<rparr>"
  let ?r = "initial_page\<lparr>mode := Login, username := ''rahul''\<rparr>"
  have m: "mode ?s = Login" "mode ?r = Login" by (simp_all add: initial_page_def)
  have d: "list_all isDigit ''1234567'' \<and> ''1234567'' \<noteq> []" by code_simp
  have p: "pin ?s = []" "pin ?r = []" "username ?r = ''rahul''" by (simp_all add: initial_page_def)
  from credential_accumulation [of Login True ?s "''1234567''" "''nine nine nine nine nine nine nine''"
         "''9 8 7 6 5 4 3 2 1''"]
       credential_accumulation [of Login True ?r "''1234567''" "''to to to to to to to''"
         "''9 8 7 6 5 4 3 2 1''"]
       m d p misheard_facts
  show ?thesis by simp
qed

text \<open>
  The claim as stated fails: on a fresh draft in login mode the utterance
  "to to to to to to to" stands for the seven digits 2222222 and matches no command
  keyword, yet it becomes the username and the pin stays empty.
\<close>

theorem misheard_digits_become_username:
  "numbers (trim (toLowerCase ''to to to to to to to'')) = ''2222222''
   \<and> first_match (login_rules Login) (trim (toLowerCase ''to to to to to to to'')) = None
   \<and> username (fst (login_command True (initial_page\<lparr>mode := Login\<rparr>) ''to to to to to to to''))
       = ''to to to to to to to''
   \<and> pin (fst (login_command True (initial_page\<lparr>mode := Login\<rparr>) ''to to to to to to to'')) = []"
  by code_simp

section \<open>Unrecognized transcripts\<close>

text \<open>
  C5, as the code has it. A transcript that matches no predicate of the active mode
  leaves the mode and the credential draft unchanged on both screens. It is silent on
  the dashboard, and on the login screen except in the login and register modes once a
  username has been captured: there the screen answers with the reminder
  "Username is ... Say numbers for PIN, or say clear to start over."
\<close>

theorem unrecognized_effects:
  "(dashboard_unrecognized (trim (toLowerCase t)) \<longrightarrow>
      fst (dashboard_command d t) = d \<and> spoken (snd (dashboard_command d t)) = [])
   \<and> (login_unrecognized s (trim (toLowerCase t)) \<longrightarrow>
      fst (login_command w s t) = s
      \<and> spoken (snd (login_command w s t)) =
          (if t \<noteq> [] \<and> trim t \<noteq> [] \<and> (mode s = Login \<or> mode s = Register) \<and> username s \<noteq> []
           then [now (Speak (''Username is '' @ username s
                             @ ''. Say numbers for PIN, or say clear to start over.''))]
           else []))"
proof -
  have a: "fst (dashboard_command d t) = d \<and> spoken (snd (dashboard_command d t)) = []"
    if "dashboard_unrecognized (trim (toLowerCase t))"
    using that
    by (simp add: dashboard_unrecognized_def dashboard_command_def Let_def
          dashboard_branch_rules spoken_def now_def)
  have b: "fst (login_command w s t) = s
      \<and> spoken (snd (login_command w s t)) =
          (if t \<noteq> [] \<and> trim t \<noteq> [] \<and> (mode s = Login \<or> mode s = Register) \<and> username s \<noteq> []
           then [now (Speak (''Username is '' @ username s
                             @ ''. Say numbers for PIN, or say clear to start over.''))]
           else [])"
    if u: "login_unrecognized s (trim (toLowerCase t))"
  proof (cases "mode s = Login \<or> mode s = Register")
    case True
    with u have f: "first_match (login_rules (mode s)) (trim (toLowerCase t)) = None"
      and c: "\<not> captures_username s (trim (toLowerCase t))"
      and n: "numbers (trim (toLowerCase t)) = []"
      by (simp_all add: login_unrecognized_def)
    show ?thesis
      using True f credential_capture_unrecognized [OF c n]
      by (simp add: login_command_def Let_def login_branch_rules spoken_def now_def)
  next
    case False
    with u have f: "first_match (login_rules (mode s)) (trim (toLowerCase t)) = None"
      by (simp add: login_unrecognized_def)
    show ?thesis
      using False f
      by (simp add: login_command_def Let_def login_branch_rules spoken_def now_def)
  qed
  from a b show ?thesis by blast
qed

theorem unrecognized_effects_witness:
  "dashboard_unrecognized (trim (toLowerCase ''Good morning''))
   \<and> login_unrecognized (initial_page\<lparr>mode := Login, username := ''rahul''\<rparr>) (trim (toLowerCase ''Good morning''))
   \<and> fst (dashboard_command \<lparr>currentMode = Jobs, isMuted = False\<rparr> ''Good morning'')
       = \<lparr>currentMode = Jobs, isMuted = False\<rparr>
   \<and> spoken (snd (dashboard_command \<lparr>currentMode = Jobs, isMuted = False\<rparr> ''Good morning'')) = []
   \<and> fst (login_command True (initial_page\<lparr>mode := Login, username := ''rahul''\<rparr>) ''Good morning'')
       = initial_page\<lparr>mode := Login, username := ''rahul''\<rparr>"
proof -
  have h1: "dashboard_unrecognized (trim (toLowerCase ''Good morning''))"
    by code_simp
  have h2: "login_unrecognized (initial_page\<lparr>mode := Login, username := ''rahul''\<rparr>) (trim (toLowerCase ''Good morning''))"
    by code_simp
  from unrecognized_effects [of "''Good morning''" "\<lparr>currentMode = Jobs, isMuted = False\<rparr>"
         "initial_page\<lparr>mode := Login, username := ''rahul''\<rparr>" True] h1 h2
  show ?thesis by blast
qed

text \<open>
  The claim as stated fails: in login mode with the username "rahul" captured, the
  transcript "blah" matches no predicate and a spoken response is requested.
\<close>

theorem unrecognized_login_speaks:
  "login_unrecognized (initial_page\<lparr>mode := Login, username := ''rahul''\<rparr>) (trim (toLowerCase ''blah''))
   \<and> spoken (snd (login_command True (initial_page\<lparr>mode := Login, username := ''rahul''\<rparr>) ''blah''))
       = [now (Speak ''Username is rahul. Say numbers for PIN, or say clear to start over.'')]"
  by code_simp

section \<open>The username is written once by voice\<close>

text \<open>
  C10. In login or register mode with a username already captured, a finalized utterance
  never gives the username a new value: it is emptied exactly when the utterance is
  classified as back/cancel/home (a transition to welcome) or as clear/reset
  (\<open>handleClearForm\<close>), and is unchanged otherwise. An utterance that matches no keyword
  leaves the username alone and appends its digits to the pin, cut to six characters.
\<close>

theorem username_write_once:
  assumes u: "username s \<noteq> []" and m: "mode s = Login \<or> mode s = Register"
  shows "username (fst (login_command w s t)) =
           (if t \<noteq> [] \<and> trim t \<noteq> []
               \<and> (first_match (login_rules (mode s)) (trim (toLowerCase t)) = Some GoWelcome
                  \<or> first_match (login_rules (mode s)) (trim (toLowerCase t)) = Some ClearForm)
            then [] else username s)
   \<and> (t \<noteq> [] \<and> trim t \<noteq> [] \<and> first_match (login_rules (mode s)) (trim (toLowerCase t)) = None \<longrightarrow>
        pin (fst (login_command w s t)) =
          (if numbers (trim (toLowerCase t)) = [] then pin s
           else take 6 (pin s @ numbers (trim (toLowerCase t)))))"
proof -
  let ?c = "trim (toLowerCase t)"
  have cap: "credential_capture s ?c = pin_detection s ?c"
    using u by (simp add: credential_capture_def)
  have pu: "username (fst (pin_detection s ?c)) = username s"
    by (simp add: pin_detection_def Let_def)
  have pp: "pin (fst (pin_detection s ?c)) =
      (if numbers ?c = [] then pin s else take 6 (pin s @ numbers ?c))"
    by (simp add: pin_detection_def Let_def)
  have ap: "username (fst (login_apply w i s)) = (if i = GoWelcome \<or> i = ClearForm then [] else username s)" for i
    by (cases i) (simp_all add: andClear_def handleModeChange_def handleClearForm_def
          handleSubmit_def Let_def)
  show ?thesis
  proof (cases "t \<noteq> [] \<and> trim t \<noteq> []")
    case False
    then show ?thesis by (auto simp: login_command_def)
  next
    case True
    show ?thesis
    proof (cases "first_match (login_rules (mode s)) ?c")
      case None
      with True m show ?thesis
        by (simp add: login_command_def Let_def login_branch_rules cap pu pp)
    next
      case (Some i)
      with True m show ?thesis
        by (simp add: login_command_def Let_def login_branch_rules ap)
    qed
  qed
qed

theorem username_write_once_witness:
  "username (fst (login_command True (initial_page\<lparr>mode := Login, username := ''rahul'', pin := ''12''\<rparr>) ''three four''))
     = ''rahul''
   \<and> pin (fst (login_command True (initial_page\<lparr>mode := Login, username := ''rahul'', pin := ''12''\<rparr>) ''three four''))
     = ''1234''"
proof -
  let ?s = "initial_page\<lparr>mode := Login, username := ''rahul'', pin := ''12''\<rparr>"
  have u: "username ?s \<noteq> []" by (simp add: initial_page_def)
  have m: "mode ?s = Login \<or> mode ?s = Register" by (simp add: initial_page_def)
  have f: "first_match (login_rules (mode ?s)) (trim (toLowerCase ''three four'')) = None"
    by code_simp
  have n: "numbers (trim (toLowerCase ''three four'')) = ''34''"
    by code_simp
  have t: "trim ''three four'' \<noteq> []"
    by code_simp
  from username_write_once [OF u m, of True "''three four''"] f n t
  show ?thesis by (simp add: initial_page_def)
qed

section \<open>Mode transitions and the credential draft\<close>

lemma handleModeChange_mode: "mode (fst (handleModeChange m s)) = m"
  by (simp add: handleModeChange_def Let_def)

lemma handleSubmit_mode: "mode (fst (handleSubmit w s)) = mode s"
  by (simp add: handleSubmit_def)

lemma handleClearForm_mode: "mode (fst (handleClearForm s)) = mode s"
  by (simp add: handleClearForm_def)

lemma credential_capture_mode: "mode (fst (credential_capture s c)) = mode s"
  by (simp add: credential_capture_def pin_detection_def Let_def)

lemma login_apply_mode:
  "mode (fst (login_apply w i s)) = mode s
   \<or> fst (login_apply w i s) = fst (handleModeChange (mode (fst (login_apply w i s))) s)"
  by (cases i)
     (simp_all add: andClear_def handleModeChange_mode handleSubmit_mode handleClearForm_mode)

lemma login_branch_mode_change:
  "mode (fst (login_branch w s c)) = mode s
   \<or> fst (login_branch w s c) = fst (handleModeChange (mode (fst (login_branch w s c))) s)"
proof (cases "first_match (login_rules (mode s)) c")
  case None
  then show ?thesis by (simp add: login_branch_rules credential_capture_mode)
next
  case (Some i)
  then have "login_branch w s c = login_apply w i s" by (simp add: login_branch_rules)
  with login_apply_mode [of w i s] show ?thesis by simp
qed

lemma login_command_mode_change:
  "mode (fst (login_command w s t)) = mode s
   \<or> fst (login_command w s t) = fst (handleModeChange (mode (fst (login_command w s t))) s)"
proof (cases "t = [] \<or> trim t = []")
  case True
  then show ?thesis by (auto simp: login_command_def)
next
  case False
  then have "fst (login_command w s t) = fst (login_branch w s (trim (toLowerCase t)))"
    by (simp add: login_command_def Let_def)
  with login_branch_mode_change [of w s "trim (toLowerCase t)"] show ?thesis by simp
qed

text \<open>
  C9. \<open>handleModeChange\<close> sets the mode and clears the error message; a transition to
  \<open>Welcome\<close> also empties username and pin, a transition to \<open>Login\<close>, \<open>Register\<close> or
  \<open>Help\<close> leaves both as they were. Every change of mode made by a voice command is such
  a call (the buttons call the same handler).
\<close>

theorem mode_change_resets_draft_only_on_welcome:
  "mode (fst (handleModeChange m s)) = m
   \<and> error (fst (handleModeChange m s)) = []
   \<and> username (fst (handleModeChange m s)) = (if m = Welcome then [] else username s)
   \<and> pin (fst (handleModeChange m s)) = (if m = Welcome then [] else pin s)
   \<and> isProcessing (fst (handleModeChange m s)) = isProcessing s
   \<and> (mode (fst (login_command w s t)) \<noteq> mode s \<longrightarrow>
        fst (login_command w s t) = fst (handleModeChange (mode (fst (login_command w s t))) s))"
proof -
  have a: "mode (fst (handleModeChange m s)) = m
   \<and> error (fst (handleModeChange m s)) = []
   \<and> username (fst (handleModeChange m s)) = (if m = Welcome then [] else username s)
   \<and> pin (fst (handleModeChange m s)) = (if m = Welcome then [] else pin s)
   \<and> isProcessing (fst (handleModeChange m s)) = isProcessing s"
    by (simp add: handleModeChange_def Let_def)
  from a login_command_mode_change [of w s t] show ?thesis by blast
qed

theorem mode_change_resets_draft_only_on_welcome_witness:
  "mode (fst (login_command True (initial_page\<lparr>mode := Login, username := ''rahul'', pin := ''12''\<rparr>) ''go back''))
     = Welcome
   \<and> fst (login_command True (initial_page\<lparr>mode := Login, username := ''rahul'', pin := ''12''\<rparr>) ''go back'')
     = fst (handleModeChange Welcome (initial_page\<lparr>mode := Login, username := ''rahul'', pin := ''12''\<rparr>))
   \<and> username (fst (handleModeChange Welcome (initial_page\<lparr>mode := Login, username := ''rahul'', pin := ''12''\<rparr>))) = []
   \<and> pin (fst (handleModeChange Help (initial_page\<lparr>mode := Login, username := ''rahul'', pin := ''12''\<rparr>))) = ''12''"
proof -
  let ?s = "initial_page\<lparr>mode := Login, username := ''rahul'', pin := ''12''\<rparr>"
  have a: "mode (fst (login_command True ?s ''go back'')) = Welcome"
    by code_simp
  have b: "mode ?s = Login" by (simp add: initial_page_def)
  have c: "pin ?s = ''12''" by (simp add: initial_page_def)
  from mode_change_resets_draft_only_on_welcome [of Welcome ?s True "''go back''"]
       mode_change_resets_draft_only_on_welcome [of Help ?s True "''go back''"] a b c
  show ?thesis by simp
qed

end
